theory Spec2Isabelle
  imports Complex_Main
begin

section \<open>CIRS2GCRS.c: the data\<close>

text \<open>
  The MEX gateway \<open>mexFunction\<close> of CIRS2GCRS.c converts a batch of 3D or 6D vectors from
  the CIRS to the GCRS. The C type \<open>double\<close> is the type parameter \<open>'d\<close>: the program only
  moves doubles, adds two of them (\<open>x += dX\<close>) and hands them to library routines, so
  nothing is assumed about the arithmetic beyond the presence of \<open>0\<close> (the content of a
  freshly created matrix) and \<open>+\<close>.
\<close>

datatype 'd vec3 = Vec3 'd 'd 'd
  \<comment> \<open>\<open>double p[3]\<close>\<close>

datatype 'd mat3 = Mat3 "'d vec3" "'d vec3" "'d vec3"
  \<comment> \<open>\<open>double r[3][3]\<close>: the rows \<open>r[0]\<close>, \<open>r[1]\<close>, \<open>r[2]\<close>\<close>

fun vget :: "'d vec3 \<Rightarrow> nat \<Rightarrow> 'd" where
  "vget (Vec3 a b c) k = (if k = 0 then a else if k = 1 then b else c)"

fun mrow :: "'d mat3 \<Rightarrow> nat \<Rightarrow> 'd vec3" where
  "mrow (Mat3 r0 r1 r2) i = (if i = 0 then r0 else if i = 1 then r1 else r2)"

definition mget :: "'d mat3 \<Rightarrow> nat \<Rightarrow> nat \<Rightarrow> 'd" where
  \<comment> \<open>\<open>r[i][j]\<close>\<close>
  "mget r i j = vget (mrow r i) j"

record 'd mxArray =
  mxGetM :: nat
  mxGetN :: nat
  mxGetData :: "'d list"
  \<comment> \<open>a real double matrix of MATLAB: rows, columns, the elements in column-major order\<close>

definition wf_mx :: "'d mxArray \<Rightarrow> bool" where
  \<comment> \<open>the data of an M-by-N array holds M*N elements\<close>
  "wf_mx a = (length (mxGetData a) = mxGetM a * mxGetN a)"

definition mxIsEmpty :: "'d mxArray \<Rightarrow> bool" where
  "mxIsEmpty a = (mxGetM a = 0 \<or> mxGetN a = 0)"

definition mxCreateDoubleMatrix :: "nat \<Rightarrow> nat \<Rightarrow> ('d::zero) mxArray" where
  \<comment> \<open>a new matrix is filled with zeros\<close>
  "mxCreateDoubleMatrix m n = \<lparr>mxGetM = m, mxGetN = n, mxGetData = replicate (m * n) 0\<rparr>"

datatype error =
    WrongNumberOfInputs
  | WrongNumberOfOutputs
  | BadDimensionality
  | ErrorComputingTAI
  | UnacceptableDate
  | ErrorUsingGetEOP
  | PoleOffsetsWrongDimensionality
  | ValidationError string
  | CalleeError
  | ReadPastArguments nat

text \<open>
  Each constructor up to \<open>PoleOffsetsWrongDimensionality\<close> is one \<open>mexErrMsgTxt\<close> call of
  \<open>mexFunction\<close>, which ends the call at once. \<open>ValidationError\<close> is an error raised
  inside \<open>checkRealDoubleArray\<close> or \<open>getDoubleFromMatlab\<close> (MexValidation.h);
  \<open>CalleeError\<close> is an error raised by \<open>getEOP\<close>, which \<open>mexCallMATLAB\<close> passes on by
  ending the call. \<open>ReadPastArguments k\<close> is a read of \<open>prhs[k]\<close> with \<open>k\<close> not below
  \<open>nrhs\<close>: the array \<open>prhs\<close> has \<open>nrhs\<close> elements, so the C program has no defined
  behaviour from there on.
\<close>

record 'd env =
  checkRealDoubleArray :: "'d mxArray \<Rightarrow> string option"
  getDoubleFromMatlab :: "'d mxArray \<Rightarrow> string + 'd"
  iauTttai :: "'d \<Rightarrow> 'd \<Rightarrow> int \<times> 'd \<times> 'd"
  iauTaiutc :: "'d \<Rightarrow> 'd \<Rightarrow> int \<times> 'd \<times> 'd"
  getEOP :: "'d \<Rightarrow> 'd \<Rightarrow> ('d mxArray \<times> 'd mxArray) option"
  iauXys06a :: "'d \<Rightarrow> 'd \<Rightarrow> 'd \<times> 'd \<times> 'd"
  iauC2ixys :: "'d \<Rightarrow> 'd \<Rightarrow> 'd \<Rightarrow> 'd mat3"
  iauRxp :: "'d mat3 \<Rightarrow> 'd vec3 \<Rightarrow> 'd vec3"

text \<open>
  The routines that \<open>mexFunction\<close> calls and whose code is not in CIRS2GCRS.c are the
  fields of \<open>env\<close>: the two validation helpers of MexValidation.h
  (\<open>checkRealDoubleArray a = Some msg\<close> and \<open>getDoubleFromMatlab a = Inl msg\<close> when the
  helper raises), the SOFA routines with their status and their output parameters as
  the result, and the MATLAB function \<open>getEOP\<close>, called with the two parts of the UTC
  date and returning its two outputs (\<open>None\<close> when it raises).
\<close>

record 'd outputs =
  vec :: "'d mxArray"
  rotMat :: "'d mxArray option"
  warnings :: "string list"
  \<comment> \<open>\<open>plhs[0]\<close>, \<open>plhs[1]\<close> when \<open>nlhs > 1\<close>, and the texts passed to \<open>mexWarnMsgTxt\<close>\<close>

text \<open>
  The result of a call is an \<open>error\<close> or its \<open>outputs\<close>. A warning given before an error
  ends the call is not kept: the result of such a call is the error alone.
\<close>

section \<open>The operations\<close>

definition arg :: "'a list \<Rightarrow> nat \<Rightarrow> error + 'a" where
  \<comment> \<open>\<open>prhs[k]\<close>, where \<open>prhs\<close> has \<open>nrhs = length prhs\<close> elements\<close>
  "arg prhs k = (if k < length prhs then Inr (prhs ! k) else Inl (ReadPastArguments k))"

definition iauTr :: "'d mat3 \<Rightarrow> 'd mat3" where
  \<comment> \<open>Modelled from the spec: \<open>iauTr\<close> of the SOFA library, whose code is not in
      CIRS2GCRS.c. The spec: the CIRS-to-GCRS matrix is the transpose of the GCRS-to-CIRS
      matrix.\<close>
  "iauTr r = Mat3 (Vec3 (mget r 0 0) (mget r 1 0) (mget r 2 0))
                  (Vec3 (mget r 0 1) (mget r 1 1) (mget r 2 1))
                  (Vec3 (mget r 0 2) (mget r 1 2) (mget r 2 2))"

definition eop_lookup :: "'d env \<Rightarrow> 'd \<Rightarrow> 'd \<Rightarrow> error + ('d \<times> 'd \<times> string list)" where
  \<comment> \<open>lines 90 to 137: the pole offsets from \<open>getEOP\<close>, at the UTC date\<close>
  "eop_lookup env TT1 TT2 =
     (case iauTttai env TT1 TT2 of (retVal, tai1, tai2) \<Rightarrow>
        if retVal \<noteq> 0 then Inl ErrorComputingTAI
        else
          (case iauTaiutc env tai1 tai2 of (retVal, utc1, utc2) \<Rightarrow>
             if retVal = - 1 then Inl UnacceptableDate
             else
               (case getEOP env utc1 utc2 of
                  None \<Rightarrow> Inl CalleeError
                | Some (xpyp, dXdY) \<Rightarrow>
                    (case checkRealDoubleArray env dXdY of
                       Some msg \<Rightarrow> Inl (ValidationError msg)
                     | None \<Rightarrow>
                         if mxGetM dXdY \<noteq> 2 \<or> mxGetN dXdY \<noteq> 1 then Inl ErrorUsingGetEOP
                         else Inr (mxGetData dXdY ! 0, mxGetData dXdY ! 1,
                                   (if retVal = 1 then [''Dubious Date entered.''] else []))))))"

definition supplied_offsets ::
  "'d env \<Rightarrow> 'd mxArray list \<Rightarrow> error + ('d \<times> 'd \<times> string list)" where
  \<comment> \<open>lines 138 to 154: the pole offsets from the arguments; the source reads \<open>prhs[4]\<close>\<close>
  "supplied_offsets env prhs =
     (case arg prhs 4 of
        Inl e \<Rightarrow> Inl e
      | Inr a \<Rightarrow>
          (case checkRealDoubleArray env a of
             Some msg \<Rightarrow> Inl (ValidationError msg)
           | None \<Rightarrow>
               (let dim1 = mxGetM a; dim2 = mxGetN a
                in if (dim1 = 2 \<and> dim2 = 1) \<or> (dim1 = 1 \<and> dim2 = 2)
                   then Inr (mxGetData a ! 0, mxGetData a ! 1, [])
                   else Inl PoleOffsetsWrongDimensionality)))"

definition pole_offsets ::
  "'d env \<Rightarrow> 'd mxArray list \<Rightarrow> 'd \<Rightarrow> 'd \<Rightarrow> error + ('d \<times> 'd \<times> string list)" where
  \<comment> \<open>line 89: \<open>if(nrhs<4||mxIsEmpty(prhs[3]))\<close>\<close>
  "pole_offsets env prhs TT1 TT2 =
     (if length prhs < 4 then eop_lookup env TT1 TT2
      else
        (case arg prhs 3 of
           Inl e \<Rightarrow> Inl e
         | Inr a \<Rightarrow> if mxIsEmpty a then eop_lookup env TT1 TT2 else supplied_offsets env prhs))"

definition GCRS2CIRS_matrix :: "('d::plus) env \<Rightarrow> 'd \<Rightarrow> 'd \<Rightarrow> 'd \<Rightarrow> 'd \<Rightarrow> 'd mat3" where
  \<comment> \<open>lines 157 to 169\<close>
  "GCRS2CIRS_matrix env TT1 TT2 dX dY =
     (case iauXys06a env TT1 TT2 of (x, y, s) \<Rightarrow> iauC2ixys env (x + dX) (y + dY) s)"

definition CIRS2GCRS_matrix :: "('d::plus) env \<Rightarrow> 'd \<Rightarrow> 'd \<Rightarrow> 'd \<Rightarrow> 'd \<Rightarrow> 'd mat3" where
  \<comment> \<open>line 172\<close>
  "CIRS2GCRS_matrix env TT1 TT2 dX dY = iauTr (GCRS2CIRS_matrix env TT1 TT2 dX dY)"

definition load3 :: "'d list \<Rightarrow> nat \<Rightarrow> 'd vec3" where
  \<comment> \<open>the three doubles at \<open>p + off\<close>\<close>
  "load3 p off = Vec3 (p ! off) (p ! (off + 1)) (p ! (off + 2))"

fun store3 :: "'d list \<Rightarrow> nat \<Rightarrow> 'd vec3 \<Rightarrow> 'd list" where
  "store3 p off (Vec3 a b c) = p[off := a, off + 1 := b, off + 2 := c]"

definition rxp_at :: "'d env \<Rightarrow> 'd mat3 \<Rightarrow> 'd list \<Rightarrow> nat \<Rightarrow> 'd list \<Rightarrow> 'd list" where
  \<comment> \<open>\<open>iauRxp(r, xVec + off, retData + off)\<close>\<close>
  "rxp_at env r xVec off retData = store3 retData off (iauRxp env r (load3 xVec off))"

definition convert_vec ::
  "'d env \<Rightarrow> 'd mat3 \<Rightarrow> nat \<Rightarrow> 'd list \<Rightarrow> 'd list \<Rightarrow> nat \<Rightarrow> 'd list" where
  \<comment> \<open>lines 182 to 192: the body of the loop, for one \<open>curVec\<close>\<close>
  "convert_vec env r numRow xVec retData curVec =
     (let retData = rxp_at env r xVec (numRow * curVec) retData
      in if numRow > 3 then rxp_at env r xVec (numRow * curVec + 3) retData else retData)"

definition convert_all ::
  "'d env \<Rightarrow> 'd mat3 \<Rightarrow> nat \<Rightarrow> nat \<Rightarrow> 'd list \<Rightarrow> 'd list \<Rightarrow> 'd list" where
  \<comment> \<open>line 181: \<open>for(curVec=0;curVec<numVec;curVec++)\<close>\<close>
  "convert_all env r numRow numVec xVec retData =
     foldl (convert_vec env r numRow xVec) retData [0..<numVec]"

definition rotMat_out :: "('d::zero) mat3 \<Rightarrow> 'd mxArray" where
  \<comment> \<open>lines 202 to 209: \<open>elPtr[i+3*j]=CIRS2GCRS[i][j]\<close> for \<open>i\<close>, \<open>j\<close> from 0 to 2\<close>
  "rotMat_out r =
     (let m = mxCreateDoubleMatrix 3 3
      in m\<lparr>mxGetData :=
             foldl (\<lambda>elPtr i. foldl (\<lambda>elPtr j. elPtr[i + 3 * j := mget r i j]) elPtr [0..<3])
               (mxGetData m) [0..<3]\<rparr>)"

definition transform :: "('d::zero) env \<Rightarrow> 'd mat3 \<Rightarrow> 'd mxArray \<Rightarrow> 'd mxArray" where
  \<comment> \<open>lines 175 to 195: the output matrix, of the size of \<open>x\<close>, filled by the loop\<close>
  "transform env r x =
     (let numRow = mxGetM x; numVec = mxGetN x;
          retMat = mxCreateDoubleMatrix numRow numVec;
          retData = convert_all env r numRow numVec (mxGetData x) (mxGetData retMat)
      in retMat\<lparr>mxGetData := retData\<rparr>)"

definition mexFunction ::
  "('d::{zero,plus}) env \<Rightarrow> int \<Rightarrow> 'd mxArray list \<Rightarrow> error + 'd outputs" where
  "mexFunction env nlhs prhs =
     (if length prhs < 3 \<or> length prhs > 4 then Inl WrongNumberOfInputs
      else if nlhs > 2 then Inl WrongNumberOfOutputs
      else
        (case arg prhs 0 of
           Inl e \<Rightarrow> Inl e
         | Inr x \<Rightarrow>
        (case checkRealDoubleArray env x of
           Some msg \<Rightarrow> Inl (ValidationError msg)
         | None \<Rightarrow>
        if \<not> (mxGetM x = 3 \<or> mxGetM x = 6) then Inl BadDimensionality
        else
        (case arg prhs 1 of
           Inl e \<Rightarrow> Inl e
         | Inr a1 \<Rightarrow>
        (case getDoubleFromMatlab env a1 of
           Inl msg \<Rightarrow> Inl (ValidationError msg)
         | Inr TT1 \<Rightarrow>
        (case arg prhs 2 of
           Inl e \<Rightarrow> Inl e
         | Inr a2 \<Rightarrow>
        (case getDoubleFromMatlab env a2 of
           Inl msg \<Rightarrow> Inl (ValidationError msg)
         | Inr TT2 \<Rightarrow>
        (case pole_offsets env prhs TT1 TT2 of
           Inl e \<Rightarrow> Inl e
         | Inr (dX, dY, warns) \<Rightarrow>
             (let CIRS2GCRS = CIRS2GCRS_matrix env TT1 TT2 dX dY
              in Inr \<lparr>vec = transform env CIRS2GCRS x,
                      rotMat = (if nlhs > 1 then Some (rotMat_out CIRS2GCRS) else None),
                      warnings = warns\<rparr>)))))))))"

section \<open>Reading the outputs\<close>

definition slot :: "nat \<Rightarrow> 'd list \<Rightarrow> nat \<Rightarrow> 'd list" where
  \<comment> \<open>column \<open>i\<close> of a matrix of \<open>numRow\<close> rows stored in column-major order\<close>
  "slot numRow p i = take numRow (drop (numRow * i) p)"

definition mx_el :: "'d mxArray \<Rightarrow> nat \<Rightarrow> nat \<Rightarrow> 'd" where
  \<comment> \<open>the element in row \<open>i\<close> and column \<open>j\<close> (from 0) of a MATLAB matrix\<close>
  "mx_el a i j = mxGetData a ! (i + mxGetM a * j)"

definition mat3_of_mx :: "'d mxArray \<Rightarrow> 'd mat3" where
  \<comment> \<open>a 3-by-3 MATLAB matrix, read as the matrix it denotes\<close>
  "mat3_of_mx a = Mat3 (Vec3 (mx_el a 0 0) (mx_el a 0 1) (mx_el a 0 2))
                       (Vec3 (mx_el a 1 0) (mx_el a 1 1) (mx_el a 1 2))
                       (Vec3 (mx_el a 2 0) (mx_el a 2 1) (mx_el a 2 2))"

section \<open>Notions used in the statements\<close>

definition converted :: "'d env \<Rightarrow> 'd mat3 \<Rightarrow> 'd list \<Rightarrow> nat \<Rightarrow> 'd" where
  \<comment> \<open>what the loop leaves at index \<open>k\<close> of \<open>retData\<close>: component \<open>k mod 3\<close> of \<open>iauRxp\<close> on the
      three doubles of \<open>xVec\<close> that \<open>k\<close> lies in\<close>
  "converted env r xVec k = vget (iauRxp env r (load3 xVec (3 * (k div 3)))) (k mod 3)"

definition passes_checks ::
  "'d env \<Rightarrow> int \<Rightarrow> 'd mxArray list \<Rightarrow> 'd \<Rightarrow> 'd \<Rightarrow> bool" where
  \<comment> \<open>the call gets through lines 67 to 86, with the date \<open>TT1\<close>, \<open>TT2\<close>\<close>
  "passes_checks env nlhs prhs TT1 TT2 =
     (3 \<le> length prhs \<and> length prhs \<le> 4 \<and> nlhs \<le> 2 \<and>
      checkRealDoubleArray env (prhs ! 0) = None \<and>
      (mxGetM (prhs ! 0) = 3 \<or> mxGetM (prhs ! 0) = 6) \<and>
      getDoubleFromMatlab env (prhs ! 1) = Inr TT1 \<and>
      getDoubleFromMatlab env (prhs ! 2) = Inr TT2)"

definition result ::
  "('d::{zero,plus}) env \<Rightarrow> int \<Rightarrow> 'd mxArray \<Rightarrow> 'd \<Rightarrow> 'd \<Rightarrow> 'd \<times> 'd \<times> string list \<Rightarrow> 'd outputs" where
  \<comment> \<open>lines 156 to 210: the outputs, once the date and the pole offsets are known\<close>
  "result env nlhs x TT1 TT2 off =
     (case off of (dX, dY, warns) \<Rightarrow>
        \<lparr>vec = transform env (CIRS2GCRS_matrix env TT1 TT2 dX dY) x,
         rotMat = (if nlhs > 1 then Some (rotMat_out (CIRS2GCRS_matrix env TT1 TT2 dX dY)) else None),
         warnings = warns\<rparr>)"

section \<open>A sample environment\<close>

definition scalar :: "'d \<Rightarrow> 'd mxArray" where
  "scalar v = \<lparr>mxGetM = 1, mxGetN = 1, mxGetData = [v]\<rparr>"

definition column :: "'d list \<Rightarrow> 'd mxArray" where
  "column vs = \<lparr>mxGetM = length vs, mxGetN = 1, mxGetData = vs\<rparr>"

definition dot3 :: "real vec3 \<Rightarrow> real vec3 \<Rightarrow> real" where
  "dot3 u v = vget u 0 * vget v 0 + vget u 1 * vget v 1 + vget u 2 * vget v 2"

definition sample_env :: "real env" where
  \<comment> \<open>stand-ins for the library routines, to run the model on concrete calls\<close>
  "sample_env =
     \<lparr>checkRealDoubleArray = (\<lambda>a. None),
      getDoubleFromMatlab =
        (\<lambda>a. if mxGetM a = 1 \<and> mxGetN a = 1 then Inr (mxGetData a ! 0) else Inl ''not a scalar''),
      iauTttai = (\<lambda>t1 t2. (0, t1, t2)),
      iauTaiutc = (\<lambda>t1 t2. (0, t1, t2)),
      getEOP = (\<lambda>u1 u2. Some (column [0, 0], column [3, 4])),
      iauXys06a = (\<lambda>t1 t2. (1, 2, 5)),
      iauC2ixys = (\<lambda>x y s. Mat3 (Vec3 1 x y) (Vec3 0 1 s) (Vec3 0 0 1)),
      iauRxp = (\<lambda>r p. Vec3 (dot3 (mrow r 0) p) (dot3 (mrow r 1) p) (dot3 (mrow r 2) p))\<rparr>"

definition sample_batch :: "real mxArray" where
  \<comment> \<open>two vectors of position and velocity\<close>
  "sample_batch =
     \<lparr>mxGetM = 6, mxGetN = 2, mxGetData = [1, 0, 0, 0, 1, 0, 0, 0, 1, 1, 1, 1]\<rparr>"

definition sample_prhs :: "real mxArray list" where
  \<comment> \<open>the call \<open>CIRS2GCRS(x, 2451545, 0)\<close>\<close>
  "sample_prhs = [sample_batch, scalar 2451545, scalar 0]"

definition sample_rotMat :: "real mxArray" where
  "sample_rotMat = \<lparr>mxGetM = 3, mxGetN = 3, mxGetData = [1, 4, 6, 0, 1, 5, 0, 0, 1]\<rparr>"

definition sample_out :: "real outputs" where
  \<comment> \<open>the outputs of the call \<open>sample_prhs\<close> in \<open>sample_env\<close>\<close>
  "sample_out =
     \<lparr>vec = \<lparr>mxGetM = 6, mxGetN = 2,
              mxGetData = [1, 4, 6, 0, 1, 5, 0, 0, 1, 1, 5, 12]\<rparr>,
      rotMat = Some sample_rotMat,
      warnings = []\<rparr>"

definition sample_empty :: "real mxArray" where
  \<comment> \<open>a batch of no vector\<close>
  "sample_empty = \<lparr>mxGetM = 6, mxGetN = 0, mxGetData = []\<rparr>"

definition sample_swapped :: "real mxArray" where
  \<comment> \<open>the two vectors of \<open>sample_batch\<close>, in the other order\<close>
  "sample_swapped =
     \<lparr>mxGetM = 6, mxGetN = 2, mxGetData = [0, 0, 1, 1, 1, 1, 1, 0, 0, 0, 1, 0]\<rparr>"

definition sample_R :: "real mat3" where
  "sample_R = Mat3 (Vec3 1 0 0) (Vec3 4 1 0) (Vec3 6 5 1)"

definition env_tai_fails :: "real env" where
  \<comment> \<open>this and the next three: \<open>sample_env\<close> with one routine that fails, warns or answers badly\<close>
  "env_tai_fails = sample_env\<lparr>iauTttai := (\<lambda>t1 t2. (1, t1, t2))\<rparr>"

definition env_unacceptable :: "real env" where
  "env_unacceptable = sample_env\<lparr>iauTaiutc := (\<lambda>t1 t2. (- 1, t1, t2))\<rparr>"

definition env_dubious :: "real env" where
  "env_dubious = sample_env\<lparr>iauTaiutc := (\<lambda>t1 t2. (1, t1, t2))\<rparr>"

definition env_bad_eop :: "real env" where
  "env_bad_eop = sample_env\<lparr>getEOP := (\<lambda>u1 u2. Some (column [0, 0], column [3, 4, 5]))\<rparr>"

definition env_shifted :: "real env" where
  \<comment> \<open>\<open>sample_env\<close> with date conversions that change the date, and a \<open>getEOP\<close> whose
      answer is the date it is called with\<close>
  "env_shifted =
     sample_env\<lparr>iauTttai := (\<lambda>t1 t2. (0, t1, t2 - 1)),
                iauTaiutc := (\<lambda>t1 t2. (0, t1 + 5, t2 - 2)),
                getEOP := (\<lambda>u1 u2. Some (column [0, 0], column [u1, u2]))\<rparr>"

section \<open>Properties of the loop, of the outputs and of the checks\<close>

lemma vec3_eta: "Vec3 (vget v 0) (vget v 1) (vget v 2) = v"
  by (cases v) simp

lemma length_store3: "length (store3 p off v) = length p"
  by (cases v) simp

lemma nth_store3:
  "off + 3 \<le> length p \<Longrightarrow>
   store3 p off v ! k = (if off \<le> k \<and> k < off + 3 then vget v (k - off) else p ! k)"
  by (cases v) (auto simp: nth_list_update)

lemma length_rxp_at: "length (rxp_at env r xVec off retData) = length retData"
  by (simp add: rxp_at_def length_store3)

lemma length_convert_vec: "length (convert_vec env r numRow xVec retData c) = length retData"
  by (simp add: convert_vec_def Let_def length_rxp_at)

lemma length_convert_all: "length (convert_all env r numRow numVec xVec retData) = length retData"
  unfolding convert_all_def
  by (induction numVec) (simp_all add: length_convert_vec)

lemma nth_rxp_at:
  assumes "off = 3 * q" and "off + 3 \<le> length retData"
  shows "rxp_at env r xVec off retData ! k =
     (if off \<le> k \<and> k < off + 3 then converted env r xVec k else retData ! k)"
proof (cases "off \<le> k \<and> k < off + 3")
  case True
  with assms(1) have "3 * (k div 3) = off" and "k mod 3 = k - off" by presburger+
  with True assms(2) show ?thesis
    by (simp add: rxp_at_def nth_store3 converted_def)
next
  case False
  with assms(2) show ?thesis
    by (auto simp add: rxp_at_def nth_store3)
qed

lemma nth_convert_vec:
  assumes "numRow = 3 \<or> numRow = 6" and "numRow * c + numRow \<le> length retData"
  shows "convert_vec env r numRow xVec retData c ! k =
     (if numRow * c \<le> k \<and> k < numRow * c + numRow then converted env r xVec k
      else retData ! k)"
  using assms(1)
proof
  assume n: "numRow = 3"
  with assms(2) show ?thesis
    by (simp add: convert_vec_def nth_rxp_at [where q = c])
next
  assume n: "numRow = 6"
  let ?mid = "rxp_at env r xVec (6 * c) retData"
  from n assms(2) have l: "6 * c + 3 \<le> length retData" "6 * c + 3 + 3 \<le> length ?mid"
    by (simp_all add: length_rxp_at)
  have first: "?mid ! k =
      (if 6 * c \<le> k \<and> k < 6 * c + 3 then converted env r xVec k else retData ! k)"
    by (rule nth_rxp_at [where q = "2 * c"]) (use l in simp_all)
  have second: "rxp_at env r xVec (6 * c + 3) ?mid ! k =
      (if 6 * c + 3 \<le> k \<and> k < 6 * c + 3 + 3 then converted env r xVec k else ?mid ! k)"
    by (rule nth_rxp_at [where q = "2 * c + 1"]) (use l in simp_all)
  have "convert_vec env r numRow xVec retData c = rxp_at env r xVec (6 * c + 3) ?mid"
    by (simp add: convert_vec_def n)
  then show ?thesis
    unfolding n using first second by auto
qed

lemma nth_convert_all:
  assumes "numRow = 3 \<or> numRow = 6" and "numRow * n \<le> length retData"
  shows "convert_all env r numRow n xVec retData ! k =
     (if k < numRow * n then converted env r xVec k else retData ! k)"
  using assms(2)
proof (induction n)
  case 0
  show ?case by (simp add: convert_all_def)
next
  case (Suc n)
  have step: "convert_all env r numRow (Suc n) xVec retData =
      convert_vec env r numRow xVec (convert_all env r numRow n xVec retData) n"
    by (simp add: convert_all_def)
  from Suc.prems have le: "numRow * n \<le> length retData" by simp
  from Suc.prems have le': "numRow * n + numRow \<le> length (convert_all env r numRow n xVec retData)"
    by (simp add: length_convert_all)
  show ?case
    unfolding step
    by (simp add: nth_convert_vec [OF assms(1) le'] Suc.IH [OF le])
qed

lemma load3_convert_all:
  assumes "numRow = 3 \<or> numRow = 6" and "numRow * n \<le> length retData"
    and "off = 3 * q" and "off + 3 \<le> numRow * n"
  shows "load3 (convert_all env r numRow n xVec retData) off = iauRxp env r (load3 xVec off)"
proof -
  have d: "Suc (3 * q) div 3 = q" "Suc (Suc (3 * q)) div 3 = q"
    and m: "Suc (3 * q) mod 3 = Suc 0" "Suc (Suc (3 * q)) mod 3 = 2"
    by presburger+
  have "load3 (convert_all env r numRow n xVec retData) off =
      Vec3 (converted env r xVec (3 * q)) (converted env r xVec (3 * q + 1))
        (converted env r xVec (3 * q + 2))"
    using assms(3,4) by (simp add: load3_def nth_convert_all [OF assms(1,2)])
  also have "\<dots> = iauRxp env r (load3 xVec off)"
    using vec3_eta [of "iauRxp env r (load3 xVec off)"]
    by (simp add: converted_def d m assms(3))
  finally show ?thesis .
qed

lemma rotMat_out_eq:
  "rotMat_out r = \<lparr>mxGetM = 3, mxGetN = 3,
     mxGetData = [mget r 0 0, mget r 1 0, mget r 2 0,
                  mget r 0 1, mget r 1 1, mget r 2 1,
                  mget r 0 2, mget r 1 2, mget r 2 2]\<rparr>"
proof -
  have u: "[0..<3] = [0, Suc 0, Suc (Suc 0)]" by (simp add: upt_rec)
  have n: "(2::nat) = Suc (Suc 0)" "(3::nat) = Suc (Suc (Suc 0))" by simp_all
  have r: "replicate 9 (0::'a) = [0, 0, 0, 0, 0, 0, 0, 0, 0]"
    by (simp add: numeral_eq_Suc)
  have "foldl (\<lambda>elPtr i. foldl (\<lambda>elPtr j. elPtr[i + 3 * j := mget r i j]) elPtr [0..<3])
          (replicate 9 0) [0..<3] =
        [mget r 0 0, mget r 1 0, mget r 2 0, mget r 0 1, mget r 1 1, mget r 2 1,
         mget r 0 2, mget r 1 2, mget r 2 2]"
    unfolding u r by (simp add: n)
  then show ?thesis
    by (simp add: rotMat_out_def mxCreateDoubleMatrix_def Let_def)
qed

lemma mat3_eta:
  "Mat3 (Vec3 (mget r 0 0) (mget r 0 1) (mget r 0 2))
        (Vec3 (mget r 1 0) (mget r 1 1) (mget r 1 2))
        (Vec3 (mget r 2 0) (mget r 2 1) (mget r 2 2)) = r"
proof -
  obtain a b c d e f g h k where "r = Mat3 (Vec3 a b c) (Vec3 d e f) (Vec3 g h k)"
    by (metis mat3.exhaust vec3.exhaust)
  then show ?thesis
    by (simp add: mget_def)
qed

lemma mat3_of_rotMat_out: "mat3_of_mx (rotMat_out r) = r"
proof -
  have "mat3_of_mx (rotMat_out r) =
      Mat3 (Vec3 (mget r 0 0) (mget r 0 1) (mget r 0 2))
           (Vec3 (mget r 1 0) (mget r 1 1) (mget r 1 2))
           (Vec3 (mget r 2 0) (mget r 2 1) (mget r 2 2))"
    by (simp add: rotMat_out_eq mat3_of_mx_def mx_el_def)
  then show ?thesis
    by (simp only: mat3_eta)
qed

lemma mget_iauTr: "i < 3 \<Longrightarrow> j < 3 \<Longrightarrow> mget (iauTr r) i j = mget r j i"
proof -
  assume "i < 3" and "j < 3"
  then have "i = 0 \<or> i = 1 \<or> i = 2" and "j = 0 \<or> j = 1 \<or> j = 2" by arith+
  then show ?thesis
    by (auto simp add: iauTr_def mget_def)
qed

lemma mexFunction_after_checks:
  assumes "passes_checks env nlhs prhs TT1 TT2"
  shows "mexFunction env nlhs prhs =
     (case pole_offsets env prhs TT1 TT2 of
        Inl e \<Rightarrow> Inl e
      | Inr off \<Rightarrow> Inr (result env nlhs (prhs ! 0) TT1 TT2 off))"
proof -
  from assms have len: "0 < length prhs" "1 < length prhs" "2 < length prhs"
    "\<not> length prhs < 3" "\<not> 4 < length prhs" "\<not> 2 < nlhs"
    by (auto simp add: passes_checks_def)
  from assms have chk: "checkRealDoubleArray env (prhs ! 0) = None"
    "mxGetM (prhs ! 0) = 3 \<or> mxGetM (prhs ! 0) = 6"
    "getDoubleFromMatlab env (prhs ! Suc 0) = Inr TT1"
    "getDoubleFromMatlab env (prhs ! 2) = Inr TT2"
    by (simp_all add: passes_checks_def)
  from len have a: "arg prhs 0 = Inr (prhs ! 0)" "arg prhs 1 = Inr (prhs ! Suc 0)"
    "arg prhs 2 = Inr (prhs ! 2)"
    by (simp_all add: arg_def)
  show ?thesis
    unfolding mexFunction_def a
    using chk(2) by (simp add: len chk(1,3,4) result_def Let_def split: sum.splits prod.splits)
qed

lemma mexFunction_InrD:
  assumes "mexFunction env nlhs prhs = Inr out"
  shows "\<exists>TT1 TT2. passes_checks env nlhs prhs TT1 TT2"
  using assms
  by (auto simp add: passes_checks_def mexFunction_def arg_def
      split: if_splits sum.splits option.splits)

lemma mexFunction_Inr_result:
  assumes "mexFunction env nlhs prhs = Inr out"
    and "getDoubleFromMatlab env (prhs ! 1) = Inr TT1"
    and "getDoubleFromMatlab env (prhs ! 2) = Inr TT2"
    and "pole_offsets env prhs TT1 TT2 = Inr off"
  shows "out = result env nlhs (prhs ! 0) TT1 TT2 off"
proof -
  from assms(1) obtain T1 T2 where p: "passes_checks env nlhs prhs T1 T2"
    using mexFunction_InrD by blast
  with assms(2,3) have "T1 = TT1" "T2 = TT2"
    by (simp_all add: passes_checks_def)
  with p assms(1,4) show ?thesis
    by (simp add: mexFunction_after_checks)
qed

lemma transform_simps:
  "mxGetM (transform env r x) = mxGetM x"
  "mxGetN (transform env r x) = mxGetN x"
  "mxGetData (transform env r x) =
     convert_all env r (mxGetM x) (mxGetN x) (mxGetData x) (replicate (mxGetM x * mxGetN x) 0)"
  by (simp_all add: transform_def mxCreateDoubleMatrix_def Let_def)

lemma wf_transform: "wf_mx (transform env r x)"
  by (simp add: wf_mx_def transform_simps length_convert_all)

lemma load3_transform:
  assumes "mxGetM x = 3 \<or> mxGetM x = 6" and "off = 3 * q"
    and "off + 3 \<le> mxGetM x * mxGetN x"
  shows "load3 (mxGetData (transform env r x)) off = iauRxp env r (load3 (mxGetData x) off)"
  unfolding transform_simps
  by (rule load3_convert_all [OF assms(1) _ assms(2)]) (use assms(3) in simp_all)

lemma nth_transform:
  assumes "mxGetM x = 3 \<or> mxGetM x = 6" and "k < mxGetM x * mxGetN x"
  shows "mxGetData (transform env r x) ! k = converted env r (mxGetData x) k"
  unfolding transform_simps
  using assms(2) by (simp add: nth_convert_all [OF assms(1)])

lemma vec_result: "vec (result env nlhs x TT1 TT2 (dX, dY, warns)) =
    transform env (CIRS2GCRS_matrix env TT1 TT2 dX dY) x"
  by (simp add: result_def)

lemma rotMat_result: "rotMat (result env nlhs x TT1 TT2 (dX, dY, warns)) =
    (if nlhs > 1 then Some (rotMat_out (CIRS2GCRS_matrix env TT1 TT2 dX dY)) else None)"
  by (simp add: result_def)

lemma warnings_result: "warnings (result env nlhs x TT1 TT2 (dX, dY, warns)) = warns"
  by (simp add: result_def)

lemma nth_rotMat_out:
  assumes "i < 3" and "j < 3"
  shows "mxGetData (rotMat_out r) ! (i + 3 * j) = mget r i j"
proof -
  from assms have "i = 0 \<or> i = 1 \<or> i = 2" and "j = 0 \<or> j = 1 \<or> j = 2" by arith+
  then show ?thesis
    by (auto simp add: rotMat_out_eq)
qed

lemma eop_lookup_no_shape_error:
  "eop_lookup env TT1 TT2 \<noteq> Inl PoleOffsetsWrongDimensionality"
  by (simp add: eop_lookup_def split: prod.splits option.splits)

lemma arg_update_0: "0 < k \<Longrightarrow> arg (prhs[0 := e]) k = arg prhs k"
  by (simp add: arg_def)

lemma pole_offsets_update_0:
  "pole_offsets env (prhs[0 := e]) TT1 TT2 = pole_offsets env prhs TT1 TT2"
proof -
  have s: "supplied_offsets env (prhs[0 := e]) = supplied_offsets env prhs"
    by (simp add: supplied_offsets_def arg_update_0)
  have a: "arg (prhs[0 := e]) 3 = arg prhs 3"
    by (simp add: arg_update_0)
  show ?thesis
    unfolding pole_offsets_def s a by simp
qed

lemma load3_slot:
  assumes "off + 3 \<le> M" and "M * i + M \<le> length xs"
  shows "load3 (slot M xs i) off = load3 xs (M * i + off)"
proof -
  from assms have "off < M" "off + 1 < M" "off + 2 < M"
    and "M * i + off \<le> length xs" "M * i + (off + 1) \<le> length xs" "M * i + (off + 2) \<le> length xs"
    by simp_all
  then show ?thesis
    unfolding load3_def slot_def
    by (simp only: nth_take nth_drop add.assoc)
qed

lemma converted_slot:
  assumes "M = 3 \<or> M = 6" and "M * i + M \<le> length xs" and "t < M"
  shows "converted env r xs (M * i + t) = converted env r (slot M xs i) t"
  using assms(1)
proof
  assume M: "M = 3"
  with assms(3) have a: "3 * ((3 * i + t) div 3) = 3 * i + 0"
    and b: "(3 * i + t) mod 3 = t mod 3" and d: "t div 3 = 0"
    by simp_all
  have c: "0 + 3 \<le> M" using M by simp
  show ?thesis
    unfolding converted_def M a b d
    using load3_slot [OF c assms(2)] by (simp add: M)
next
  assume M: "M = 6"
  have a: "3 * ((6 * i + t) div 3) = 6 * i + 3 * (t div 3)"
    and b: "(6 * i + t) mod 3 = t mod 3"
    by presburger+
  from assms(3) M have c: "3 * (t div 3) + 3 \<le> M" by simp
  show ?thesis
    unfolding converted_def M a b
    using load3_slot [OF c assms(2)] by (simp add: M)
qed

lemma slot_transform:
  assumes "mxGetM x = 3 \<or> mxGetM x = 6" and "wf_mx x" and "i < mxGetN x"
  shows "slot (mxGetM x) (mxGetData (transform env r x)) i =
     map (converted env r (slot (mxGetM x) (mxGetData x) i)) [0..<mxGetM x]"
proof (rule nth_equalityI)
  let ?M = "mxGetM x" and ?N = "mxGetN x"
  from assms(3) have "Suc i \<le> ?N" by simp
  then have "?M * Suc i \<le> ?M * ?N" by (rule mult_le_mono2)
  then have le: "?M * i + ?M \<le> ?M * ?N" by simp
  have len: "length (mxGetData (transform env r x)) = ?M * ?N"
    by (simp add: transform_simps length_convert_all)
  from le show "length (slot ?M (mxGetData (transform env r x)) i) =
      length (map (converted env r (slot ?M (mxGetData x) i)) [0..<?M])"
    by (simp add: slot_def len)
  fix t assume "t < length (slot ?M (mxGetData (transform env r x)) i)"
  with le have t: "t < ?M" by (simp add: slot_def len)
  with le have k: "?M * i + t < ?M * ?N" by simp
  from assms(2) le have lx: "?M * i + ?M \<le> length (mxGetData x)"
    by (simp add: wf_mx_def)
  from le have "?M * i \<le> ?M * ?N" by arith
  then have "?M * i \<le> length (mxGetData (transform env r x))"
    by (simp only: len)
  then have "slot ?M (mxGetData (transform env r x)) i ! t =
      mxGetData (transform env r x) ! (?M * i + t)"
    using t by (simp add: slot_def)
  also have "\<dots> = converted env r (mxGetData x) (?M * i + t)"
    by (rule nth_transform [OF assms(1) k])
  also have "\<dots> = converted env r (slot ?M (mxGetData x) i) t"
    by (rule converted_slot [OF assms(1) lx t])
  finally show "slot ?M (mxGetData (transform env r x)) i ! t =
      map (converted env r (slot ?M (mxGetData x) i)) [0..<?M] ! t"
    using t by simp
qed

lemma supplied_offsets_past_arguments:
  "length prhs \<le> 4 \<Longrightarrow> supplied_offsets env prhs = Inl (ReadPastArguments 4)"
  by (simp add: supplied_offsets_def arg_def)

lemma pole_offsets_supplied:
  assumes "length prhs = 4" and "\<not> mxIsEmpty (prhs ! 3)"
  shows "pole_offsets env prhs TT1 TT2 = Inl (ReadPastArguments 4)"
  using assms by (simp add: pole_offsets_def arg_def supplied_offsets_past_arguments)

lemma sample_call: "mexFunction sample_env 2 sample_prhs = Inr sample_out"
  by code_simp

lemma sample_TT1: "getDoubleFromMatlab sample_env (sample_prhs ! 1) = Inr 2451545"
  by (simp add: sample_env_def sample_prhs_def scalar_def)

lemma sample_TT2: "getDoubleFromMatlab sample_env (sample_prhs ! 2) = Inr 0"
  by (simp add: sample_env_def sample_prhs_def scalar_def)

lemma sample_offsets: "pole_offsets sample_env sample_prhs 2451545 0 = Inr (3, 4, [])"
  by (simp add: pole_offsets_def eop_lookup_def sample_env_def sample_prhs_def column_def)

lemma sample_wf: "wf_mx (sample_prhs ! 0)"
  by (simp add: wf_mx_def sample_prhs_def sample_batch_def)

lemma sample_passes: "passes_checks sample_env 2 sample_prhs 2451545 0"
  by (simp add: passes_checks_def sample_prhs_def sample_batch_def sample_env_def scalar_def)

lemma mexFunction_shape_errorD:
  assumes "mexFunction env nlhs prhs = Inl PoleOffsetsWrongDimensionality"
  shows "\<exists>TT1 TT2. pole_offsets env prhs TT1 TT2 = Inl PoleOffsetsWrongDimensionality"
  using assms
  by (auto simp add: mexFunction_def arg_def Let_def
      split: if_splits sum.splits option.splits prod.splits)

lemma mexFunction_supplied:
  assumes "passes_checks env nlhs prhs TT1 TT2" and "length prhs = 4"
    and "\<not> mxIsEmpty (prhs ! 3)"
  shows "mexFunction env nlhs prhs = Inl (ReadPastArguments 4)"
  by (simp add: mexFunction_after_checks [OF assms(1)] pole_offsets_supplied [OF assms(2,3)])

section \<open>The claims\<close>

text \<open>
  C1 (a defect of the code). The claim: when the caller gives the pole offsets as a
  non-empty fourth argument of two values, no lookup is made and these values are the
  offsets added to the CIP coordinates. The branch of \<open>mexFunction\<close> for that case
  (lines 138 to 154) reads \<open>prhs[4]\<close> where the fourth argument is \<open>prhs[3]\<close>; a call has
  at most four arguments, so the read is past the end of \<open>prhs\<close> and the values of the
  caller are never used. Here: the call with the offsets \<open>[1; 2]\<close>.
\<close>

theorem C1_supplied_offsets_not_read:
  "mexFunction sample_env 2 [column [1, 0, 0], scalar 2451545, scalar 0, column [1, 2]] =
     Inl (ReadPastArguments 4)"
  by (simp add: mexFunction_def arg_def sample_env_def column_def scalar_def
      pole_offsets_def supplied_offsets_def mxIsEmpty_def)

text \<open>
  C2 (a defect of the code, the same one as for C1). The claim: a non-empty fourth
  argument that is not two values is rejected as an error of the caller. The shape
  that \<open>mexFunction\<close> tests is the one of \<open>prhs[4]\<close>, past the end of the arguments, and
  not the one of the fourth argument: a 3-by-1 fourth argument does not lead to the
  error for offsets of a wrong size.
\<close>

theorem C2_offsets_shape_not_checked:
  "mexFunction sample_env 2
     [column [1, 0, 0], scalar 2451545, scalar 0, column [1, 2, 3]] =
     Inl (ReadPastArguments 4) \<and>
   mexFunction sample_env 2
     [column [1, 0, 0], scalar 2451545, scalar 0, column [1, 2, 3]] \<noteq>
     Inl PoleOffsetsWrongDimensionality"
  by (simp add: mexFunction_def arg_def sample_env_def column_def scalar_def
      pole_offsets_def supplied_offsets_def mxIsEmpty_def)

text \<open>
  C3. In the output of a successful call on a batch of 3 or 6 rows, the first three
  components of every vector \<open>i\<close> are \<open>iauRxp\<close> (the product of a matrix and a vector) of
  the CIRS-to-GCRS matrix and the first three components of the input vector \<open>i\<close>; with
  6 rows, the components 3 to 5 are \<open>iauRxp\<close> of the same matrix and the components
  3 to 5 of the input vector.
\<close>

theorem C3_vectors_rotated:
  assumes "mexFunction env nlhs prhs = Inr out"
    and "getDoubleFromMatlab env (prhs ! 1) = Inr TT1"
    and "getDoubleFromMatlab env (prhs ! 2) = Inr TT2"
    and "pole_offsets env prhs TT1 TT2 = Inr (dX, dY, warns)"
    and "wf_mx (prhs ! 0)" and "i < mxGetN (prhs ! 0)"
  shows "load3 (mxGetData (vec out)) (mxGetM (prhs ! 0) * i) =
           iauRxp env (CIRS2GCRS_matrix env TT1 TT2 dX dY)
             (load3 (mxGetData (prhs ! 0)) (mxGetM (prhs ! 0) * i)) \<and>
         (mxGetM (prhs ! 0) = 6 \<longrightarrow>
            load3 (mxGetData (vec out)) (6 * i + 3) =
              iauRxp env (CIRS2GCRS_matrix env TT1 TT2 dX dY)
                (load3 (mxGetData (prhs ! 0)) (6 * i + 3)))"
proof -
  let ?x = "prhs ! 0" and ?R = "CIRS2GCRS_matrix env TT1 TT2 dX dY"
  from assms(1) obtain T1 T2 where "passes_checks env nlhs prhs T1 T2"
    using mexFunction_InrD by blast
  then have M: "mxGetM ?x = 3 \<or> mxGetM ?x = 6"
    by (simp add: passes_checks_def)
  have out: "vec out = transform env ?R ?x"
    using mexFunction_Inr_result [OF assms(1-4)] by (simp add: vec_result)
  from assms(6) have "Suc i \<le> mxGetN ?x" by simp
  then have "mxGetM ?x * Suc i \<le> mxGetM ?x * mxGetN ?x"
    by (rule mult_le_mono2)
  then have le: "mxGetM ?x * i + mxGetM ?x \<le> mxGetM ?x * mxGetN ?x" by simp
  from M obtain q where q: "mxGetM ?x * i = 3 * q"
    by (auto intro: that [of i] that [of "2 * i"])
  have pos: "load3 (mxGetData (vec out)) (mxGetM ?x * i) =
      iauRxp env ?R (load3 (mxGetData ?x) (mxGetM ?x * i))"
    unfolding out
    by (rule load3_transform [OF M q]) (use M le in auto)
  have vel: "load3 (mxGetData (vec out)) (6 * i + 3) =
      iauRxp env ?R (load3 (mxGetData ?x) (6 * i + 3))" if six: "mxGetM ?x = 6"
    unfolding out
    by (rule load3_transform [OF M, where q = "2 * i + 1"]) (use six le in simp_all)
  from pos vel show ?thesis by blast
qed

text \<open>The theorem at a sample call.\<close>

theorem C3_vectors_rotated_witness:
  "load3 (mxGetData (vec sample_out)) 6 =
     iauRxp sample_env (CIRS2GCRS_matrix sample_env 2451545 0 3 4)
       (load3 (mxGetData sample_batch) 6) \<and>
   load3 (mxGetData (vec sample_out)) 9 =
     iauRxp sample_env (CIRS2GCRS_matrix sample_env 2451545 0 3 4)
       (load3 (mxGetData sample_batch) 9)"
proof -
  have i: "1 < mxGetN (sample_prhs ! 0)"
    by (simp add: sample_prhs_def sample_batch_def)
  have x: "sample_prhs ! 0 = sample_batch" "mxGetM sample_batch = 6"
    by (simp_all add: sample_prhs_def sample_batch_def)
  from C3_vectors_rotated [OF sample_call sample_TT1 sample_TT2 sample_offsets sample_wf i]
  show ?thesis
    unfolding x by simp
qed

text \<open>
  C4. The matrix that a successful call rotates the vectors with, and returns as its
  second output when asked to, is the transpose of the GCRS-to-CIRS matrix that
  \<open>iauC2ixys\<close> gave: its element \<open>i\<close>, \<open>j\<close> is the element \<open>j\<close>, \<open>i\<close> of that matrix, for
  \<open>i\<close> and \<open>j\<close> from 0 to 2.
\<close>

theorem C4_transposed_matrix:
  assumes "mexFunction env nlhs prhs = Inr out"
    and "getDoubleFromMatlab env (prhs ! 1) = Inr TT1"
    and "getDoubleFromMatlab env (prhs ! 2) = Inr TT2"
    and "pole_offsets env prhs TT1 TT2 = Inr (dX, dY, warns)"
  shows "vec out = transform env (CIRS2GCRS_matrix env TT1 TT2 dX dY) (prhs ! 0) \<and>
         (nlhs > 1 \<longrightarrow> rotMat out = Some (rotMat_out (CIRS2GCRS_matrix env TT1 TT2 dX dY))) \<and>
         (\<forall>i<3. \<forall>j<3. mget (CIRS2GCRS_matrix env TT1 TT2 dX dY) i j =
                        mget (GCRS2CIRS_matrix env TT1 TT2 dX dY) j i)"
  using mexFunction_Inr_result [OF assms]
  by (simp add: vec_result rotMat_result CIRS2GCRS_matrix_def mget_iauTr)

text \<open>The theorem at a sample call.\<close>

theorem C4_transposed_matrix_witness:
  "vec sample_out = transform sample_env (CIRS2GCRS_matrix sample_env 2451545 0 3 4) sample_batch \<and>
   rotMat sample_out = Some (rotMat_out (CIRS2GCRS_matrix sample_env 2451545 0 3 4)) \<and>
   mget (CIRS2GCRS_matrix sample_env 2451545 0 3 4) 0 1 =
     mget (GCRS2CIRS_matrix sample_env 2451545 0 3 4) 1 0 \<and>
   mget (CIRS2GCRS_matrix sample_env 2451545 0 3 4) 2 0 =
     mget (GCRS2CIRS_matrix sample_env 2451545 0 3 4) 0 2"
proof -
  note c = C4_transposed_matrix [OF sample_call sample_TT1 sample_TT2 sample_offsets]
  have x: "sample_prhs ! 0 = sample_batch"
    by (simp add: sample_prhs_def)
  from c have a: "vec sample_out =
      transform sample_env (CIRS2GCRS_matrix sample_env 2451545 0 3 4) sample_batch"
    unfolding x by blast
  from c have b: "rotMat sample_out =
      Some (rotMat_out (CIRS2GCRS_matrix sample_env 2451545 0 3 4))"
    by simp
  from c have t: "\<forall>i<3. \<forall>j<3. mget (CIRS2GCRS_matrix sample_env 2451545 0 3 4) i j =
      mget (GCRS2CIRS_matrix sample_env 2451545 0 3 4) j i"
    by blast
  have "(0::nat) < 3" "(1::nat) < 3" "(2::nat) < 3" by simp_all
  with t a b show ?thesis by blast
qed

text \<open>
  C5. When the pole offsets are looked up (three arguments, or an empty fourth one): a
  status of \<open>iauTttai\<close> other than 0 ends the call with an error; the status \<open>-1\<close> of
  \<open>iauTaiutc\<close> ends the call with an error; with the status 1 of \<open>iauTaiutc\<close> (a dubious
  date) and a 2-by-1 answer of \<open>getEOP\<close> the call gives its outputs together with a
  warning; an answer of \<open>getEOP\<close> of another shape ends the call with an error. A call
  that ended with an error has no outputs (it is an \<open>Inl\<close>).
\<close>

theorem C5_lookup_failures:
  assumes "passes_checks env nlhs prhs TT1 TT2"
    and "length prhs < 4 \<or> mxIsEmpty (prhs ! 3)"
    and "iauTttai env TT1 TT2 = (st1, tai1, tai2)"
    and "iauTaiutc env tai1 tai2 = (st2, utc1, utc2)"
  shows "(st1 \<noteq> 0 \<longrightarrow> mexFunction env nlhs prhs = Inl ErrorComputingTAI) \<and>
         (st1 = 0 \<and> st2 = - 1 \<longrightarrow> mexFunction env nlhs prhs = Inl UnacceptableDate) \<and>
         (st1 = 0 \<and> st2 = 1 \<longrightarrow>
            (\<forall>xpyp dXdY. getEOP env utc1 utc2 = Some (xpyp, dXdY) \<and>
               checkRealDoubleArray env dXdY = None \<and> mxGetM dXdY = 2 \<and> mxGetN dXdY = 1 \<longrightarrow>
               (\<exists>out. mexFunction env nlhs prhs = Inr out \<and>
                  warnings out = [''Dubious Date entered.''] \<and>
                  vec out = transform env
                    (CIRS2GCRS_matrix env TT1 TT2 (mxGetData dXdY ! 0) (mxGetData dXdY ! 1))
                    (prhs ! 0)))) \<and>
         (st1 = 0 \<and> st2 \<noteq> - 1 \<longrightarrow>
            (\<forall>xpyp dXdY. getEOP env utc1 utc2 = Some (xpyp, dXdY) \<and>
               checkRealDoubleArray env dXdY = None \<and>
               (mxGetM dXdY \<noteq> 2 \<or> mxGetN dXdY \<noteq> 1) \<longrightarrow>
               mexFunction env nlhs prhs = Inl ErrorUsingGetEOP))"
proof -
  from assms(1) have "length prhs \<le> 4" by (simp add: passes_checks_def)
  with assms(2) have "pole_offsets env prhs TT1 TT2 = eop_lookup env TT1 TT2"
    by (auto simp add: pole_offsets_def arg_def)
  then have m: "mexFunction env nlhs prhs =
      (case eop_lookup env TT1 TT2 of
         Inl e \<Rightarrow> Inl e
       | Inr off \<Rightarrow> Inr (result env nlhs (prhs ! 0) TT1 TT2 off))"
    by (simp add: mexFunction_after_checks [OF assms(1)])
  show ?thesis
    unfolding m eop_lookup_def
    by (auto simp add: assms(3,4) vec_result warnings_result)
qed

text \<open>The theorem at a sample call.\<close>

theorem C5_lookup_failures_witness:
  "mexFunction env_tai_fails 2 sample_prhs = Inl ErrorComputingTAI \<and>
   mexFunction env_unacceptable 2 sample_prhs = Inl UnacceptableDate \<and>
   (\<exists>out. mexFunction env_dubious 2 sample_prhs = Inr out \<and>
      warnings out = [''Dubious Date entered.''] \<and>
      vec out = transform env_dubious (CIRS2GCRS_matrix env_dubious 2451545 0 3 4) sample_batch) \<and>
   mexFunction env_bad_eop 2 sample_prhs = Inl ErrorUsingGetEOP"
proof -
  have l: "length sample_prhs < 4 \<or> mxIsEmpty (sample_prhs ! 3)"
    by (simp add: sample_prhs_def)
  have x: "sample_prhs ! 0 = sample_batch"
    by (simp add: sample_prhs_def)
  have p: "passes_checks env_tai_fails 2 sample_prhs 2451545 0"
    "passes_checks env_unacceptable 2 sample_prhs 2451545 0"
    "passes_checks env_dubious 2 sample_prhs 2451545 0"
    "passes_checks env_bad_eop 2 sample_prhs 2451545 0"
    using sample_passes
    by (simp_all add: passes_checks_def env_tai_fails_def env_unacceptable_def
        env_dubious_def env_bad_eop_def)
  have a: "mexFunction env_tai_fails 2 sample_prhs = Inl ErrorComputingTAI"
    using C5_lookup_failures [OF p(1) l, of 1 2451545 0 0 2451545 0]
    by (simp add: env_tai_fails_def sample_env_def)
  have b: "mexFunction env_unacceptable 2 sample_prhs = Inl UnacceptableDate"
    using C5_lookup_failures [OF p(2) l, of 0 2451545 0 "- 1" 2451545 0]
    by (simp add: env_unacceptable_def sample_env_def)
  have e: "getEOP env_dubious 2451545 0 = Some (column [0, 0], column [3, 4]) \<and>
      checkRealDoubleArray env_dubious (column [3, 4]) = None \<and>
      mxGetM (column [3, 4 :: real]) = 2 \<and> mxGetN (column [3, 4 :: real]) = 1"
    by (simp add: env_dubious_def sample_env_def column_def)
  have t: "iauTttai env_dubious 2451545 0 = (0, 2451545, 0)"
    "iauTaiutc env_dubious 2451545 0 = (1, 2451545, 0)"
    by (simp_all add: env_dubious_def sample_env_def)
  have d: "mxGetData (column [3, 4 :: real]) ! 0 = 3" "mxGetData (column [3, 4 :: real]) ! 1 = 4"
    by (simp_all add: column_def)
  from C5_lookup_failures [OF p(3) l t] e
  have "\<exists>out. mexFunction env_dubious 2 sample_prhs = Inr out \<and>
      warnings out = [''Dubious Date entered.''] \<and>
      vec out = transform env_dubious
        (CIRS2GCRS_matrix env_dubious 2451545 0 (mxGetData (column [3, 4 :: real]) ! 0)
           (mxGetData (column [3, 4 :: real]) ! 1)) (sample_prhs ! 0)"
    by blast
  then have c: "\<exists>out. mexFunction env_dubious 2 sample_prhs = Inr out \<and>
      warnings out = [''Dubious Date entered.''] \<and>
      vec out = transform env_dubious (CIRS2GCRS_matrix env_dubious 2451545 0 3 4) sample_batch"
    unfolding d x .
  have e': "getEOP env_bad_eop 2451545 0 = Some (column [0, 0], column [3, 4, 5]) \<and>
      checkRealDoubleArray env_bad_eop (column [3, 4, 5]) = None \<and>
      (mxGetM (column [3, 4, 5 :: real]) \<noteq> 2 \<or> mxGetN (column [3, 4, 5 :: real]) \<noteq> 1)"
    by (simp add: env_bad_eop_def sample_env_def column_def)
  have t': "iauTttai env_bad_eop 2451545 0 = (0, 2451545, 0)"
    "iauTaiutc env_bad_eop 2451545 0 = (0, 2451545, 0)"
    by (simp_all add: env_bad_eop_def sample_env_def)
  from C5_lookup_failures [OF p(4) l t'] e'
  have f: "mexFunction env_bad_eop 2 sample_prhs = Inl ErrorUsingGetEOP"
    by (simp del: One_nat_def)
  from a b c f show ?thesis by blast
qed

text \<open>
  C6. A call on a batch whose number of rows is neither 3 nor 6 ends with an error and
  gives no output. The error is the one for the number of arguments or of outputs, the
  one of \<open>checkRealDoubleArray\<close> on the batch, or else the one for a bad dimensionality:
  it is decided by these checks alone, and no routine of the date conversion, of the
  lookup or of the rotation has a part in it.
\<close>

theorem C6_bad_dimensionality:
  assumes "mxGetM (prhs ! 0) \<noteq> 3" and "mxGetM (prhs ! 0) \<noteq> 6"
  shows "mexFunction env nlhs prhs =
           (if length prhs < 3 \<or> length prhs > 4 then Inl WrongNumberOfInputs
            else if nlhs > 2 then Inl WrongNumberOfOutputs
            else case checkRealDoubleArray env (prhs ! 0) of
                   Some msg \<Rightarrow> Inl (ValidationError msg)
                 | None \<Rightarrow> Inl BadDimensionality) \<and>
         (\<forall>out. mexFunction env nlhs prhs \<noteq> Inr out)"
  using assms
  by (auto simp add: mexFunction_def arg_def split: option.splits)

text \<open>The theorem at a sample call.\<close>

theorem C6_bad_dimensionality_witness:
  "mexFunction sample_env 2 [column [1, 0, 0, 5], scalar 2451545, scalar 0] =
     Inl BadDimensionality"
  using C6_bad_dimensionality [of "[column [1, 0, 0, 5], scalar 2451545, scalar 0]" sample_env 2]
  by (simp add: column_def sample_env_def)

text \<open>
  C7. The first output of a successful call has the rows (3 or 6) and the columns of
  the batch, and as many elements as rows times columns; for a batch of no column the
  output holds no element. A batch of no column is not an error: where a call
  succeeds, the same call on an empty batch of the same number of rows succeeds too,
  and its first output is empty.
\<close>

theorem C7_dimension_preserved:
  assumes "mexFunction env nlhs prhs = Inr out"
  shows "(mxGetM (prhs ! 0) = 3 \<or> mxGetM (prhs ! 0) = 6) \<and>
         mxGetM (vec out) = mxGetM (prhs ! 0) \<and>
         mxGetN (vec out) = mxGetN (prhs ! 0) \<and>
         length (mxGetData (vec out)) = mxGetM (prhs ! 0) * mxGetN (prhs ! 0) \<and>
         (mxGetN (prhs ! 0) = 0 \<longrightarrow> mxGetData (vec out) = []) \<and>
         (\<forall>e. checkRealDoubleArray env e = None \<and> mxGetM e = mxGetM (prhs ! 0) \<and>
               mxGetN e = 0 \<longrightarrow>
               (\<exists>out'. mexFunction env nlhs (prhs[0 := e]) = Inr out' \<and>
                  vec out' = \<lparr>mxGetM = mxGetM e, mxGetN = 0, mxGetData = []\<rparr>))"
proof -
  let ?x = "prhs ! 0"
  from assms obtain TT1 TT2 where p: "passes_checks env nlhs prhs TT1 TT2"
    using mexFunction_InrD by blast
  with assms obtain off where off: "pole_offsets env prhs TT1 TT2 = Inr off"
    and out: "out = result env nlhs ?x TT1 TT2 off"
    by (auto simp add: mexFunction_after_checks split: sum.splits)
  obtain dX dY warns where o: "off = (dX, dY, warns)" by (cases off) auto
  let ?R = "CIRS2GCRS_matrix env TT1 TT2 dX dY"
  have v: "vec out = transform env ?R ?x"
    by (simp add: out o vec_result)
  from p have M: "mxGetM ?x = 3 \<or> mxGetM ?x = 6"
    by (simp add: passes_checks_def)
  have len: "length (mxGetData (vec out)) = mxGetM ?x * mxGetN ?x"
    by (simp add: v transform_simps length_convert_all)
  have empty: "\<exists>out'. mexFunction env nlhs (prhs[0 := e]) = Inr out' \<and>
      vec out' = \<lparr>mxGetM = mxGetM e, mxGetN = 0, mxGetData = []\<rparr>"
    if e: "checkRealDoubleArray env e = None" "mxGetM e = mxGetM ?x" "mxGetN e = 0" for e
  proof -
    from p have l: "3 \<le> length prhs" by (simp add: passes_checks_def)
    then have "0 < length prhs" by arith
    then have n: "prhs[0 := e] ! 0 = e" "prhs[0 := e] ! 1 = prhs ! 1" "prhs[0 := e] ! 2 = prhs ! 2"
      by simp_all
    from p e M have "passes_checks env nlhs (prhs[0 := e]) TT1 TT2"
      unfolding passes_checks_def n by simp
    then have "mexFunction env nlhs (prhs[0 := e]) = Inr (result env nlhs e TT1 TT2 off)"
      by (simp add: mexFunction_after_checks pole_offsets_update_0 off n(1))
    moreover have "vec (result env nlhs e TT1 TT2 off) =
        \<lparr>mxGetM = mxGetM e, mxGetN = 0, mxGetData = []\<rparr>"
      by (simp add: o vec_result transform_def mxCreateDoubleMatrix_def convert_all_def e(3))
    ultimately show ?thesis by blast
  qed
  from len have nil: "mxGetData (vec out) = []" if "mxGetN ?x = 0"
    using that by simp
  have "mxGetM (vec out) = mxGetM ?x" "mxGetN (vec out) = mxGetN ?x"
    by (simp_all add: v transform_simps)
  with M len nil empty show ?thesis
    by blast
qed

text \<open>The theorem at a sample call.\<close>

theorem C7_dimension_preserved_witness:
  "mxGetM (vec sample_out) = 6 \<and> mxGetN (vec sample_out) = 2 \<and>
   length (mxGetData (vec sample_out)) = 12 \<and>
   (\<exists>out'. mexFunction sample_env 2 (sample_prhs[0 := sample_empty]) = Inr out' \<and>
      vec out' = sample_empty)"
proof -
  note c = C7_dimension_preserved [OF sample_call]
  have x: "sample_prhs ! 0 = sample_batch" "mxGetM sample_batch = 6" "mxGetN sample_batch = 2"
    by (simp_all add: sample_prhs_def sample_batch_def)
  have e: "checkRealDoubleArray sample_env sample_empty = None \<and>
      mxGetM sample_empty = mxGetM (sample_prhs ! 0) \<and> mxGetN sample_empty = 0"
    by (simp add: sample_env_def sample_empty_def x)
  from c have "\<exists>out'. mexFunction sample_env 2 (sample_prhs[0 := sample_empty]) = Inr out' \<and>
      vec out' = \<lparr>mxGetM = mxGetM sample_empty, mxGetN = 0, mxGetData = []\<rparr>"
    using e by blast
  then have "\<exists>out'. mexFunction sample_env 2 (sample_prhs[0 := sample_empty]) = Inr out' \<and>
      vec out' = sample_empty"
    by (simp add: sample_empty_def)
  with c show ?thesis
    unfolding x by simp
qed

text \<open>
  C8. For any matrix \<open>r\<close> and any batch of 3 or 6 rows, the column \<open>i\<close> of the converted
  batch is what the conversion of that one column alone gives; and it is the same as
  the column \<open>j\<close> of the conversion of any other batch whose column \<open>j\<close> holds the same
  vector, whatever the other columns of the two batches are and wherever the vector is
  placed.
\<close>

theorem C8_batch_independence:
  assumes "mxGetM x = 3 \<or> mxGetM x = 6" and "wf_mx x" and "i < mxGetN x"
  shows "slot (mxGetM x) (mxGetData (transform env r x)) i =
           mxGetData (transform env r
             \<lparr>mxGetM = mxGetM x, mxGetN = 1, mxGetData = slot (mxGetM x) (mxGetData x) i\<rparr>) \<and>
         (\<forall>y j. mxGetM y = mxGetM x \<and> wf_mx y \<and> j < mxGetN y \<and>
                 slot (mxGetM y) (mxGetData y) j = slot (mxGetM x) (mxGetData x) i \<longrightarrow>
                 slot (mxGetM y) (mxGetData (transform env r y)) j =
                 slot (mxGetM x) (mxGetData (transform env r x)) i)"
proof -
  let ?M = "mxGetM x"
  let ?s = "slot ?M (mxGetData x) i"
  let ?one = "\<lparr>mxGetM = ?M, mxGetN = 1, mxGetData = ?s\<rparr>"
  from assms(3) have "Suc i \<le> mxGetN x" by simp
  then have "?M * Suc i \<le> ?M * mxGetN x" by (rule mult_le_mono2)
  with assms(2) have ls: "length ?s = ?M"
    by (simp add: slot_def wf_mx_def)
  then have wf1: "wf_mx ?one" by (simp add: wf_mx_def)
  have whole: "slot ?M zs 0 = zs" if "length zs = ?M" for zs :: "'a list"
    using that by (simp add: slot_def)
  have "length (mxGetData (transform env r ?one)) = ?M"
    by (simp add: transform_simps length_convert_all)
  then have "mxGetData (transform env r ?one) = slot ?M (mxGetData (transform env r ?one)) 0"
    by (simp add: whole)
  also have "\<dots> = map (converted env r (slot ?M ?s 0)) [0..<?M]"
    using slot_transform [of ?one 0 env r] assms(1) wf1 by simp
  also have "\<dots> = slot ?M (mxGetData (transform env r x)) i"
    by (simp add: whole [OF ls] slot_transform [OF assms])
  finally have single: "slot ?M (mxGetData (transform env r x)) i =
      mxGetData (transform env r ?one)" by simp
  have other: "slot (mxGetM y) (mxGetData (transform env r y)) j =
      slot ?M (mxGetData (transform env r x)) i"
    if "mxGetM y = ?M" "wf_mx y" "j < mxGetN y"
      "slot (mxGetM y) (mxGetData y) j = ?s" for y j
  proof -
    from that(1) assms(1) have "mxGetM y = 3 \<or> mxGetM y = 6" by simp
    from slot_transform [OF this that(2,3)] that(1,4) show ?thesis
      by (simp add: slot_transform [OF assms])
  qed
  from single other show ?thesis by blast
qed

text \<open>The theorem at a sample call.\<close>

theorem C8_batch_independence_witness:
  "slot 6 (mxGetData (transform sample_env sample_R sample_batch)) 1 =
     mxGetData (transform sample_env sample_R
       \<lparr>mxGetM = 6, mxGetN = 1, mxGetData = [0, 0, 1, 1, 1, 1]\<rparr>) \<and>
   slot 6 (mxGetData (transform sample_env sample_R sample_swapped)) 0 =
     slot 6 (mxGetData (transform sample_env sample_R sample_batch)) 1"
proof -
  have x: "mxGetM sample_batch = 6" "mxGetM sample_swapped = 6"
    and s: "slot 6 (mxGetData sample_batch) 1 = [0, 0, 1, 1, 1, 1]"
    "slot 6 (mxGetData sample_swapped) 0 = [0, 0, 1, 1, 1, 1]"
    by (simp_all add: sample_batch_def sample_swapped_def slot_def)
  have h: "mxGetM sample_batch = 3 \<or> mxGetM sample_batch = 6" "wf_mx sample_batch"
    "1 < mxGetN sample_batch"
    by (simp_all add: sample_batch_def wf_mx_def)
  have y: "mxGetM sample_swapped = mxGetM sample_batch \<and> wf_mx sample_swapped \<and>
      0 < mxGetN sample_swapped \<and>
      slot (mxGetM sample_swapped) (mxGetData sample_swapped) 0 =
        slot (mxGetM sample_batch) (mxGetData sample_batch) 1"
    unfolding x s by (simp add: sample_swapped_def wf_mx_def)
  note c = C8_batch_independence [OF h, of sample_env sample_R]
  from c have a: "slot 6 (mxGetData (transform sample_env sample_R sample_batch)) 1 =
     mxGetData (transform sample_env sample_R
       \<lparr>mxGetM = 6, mxGetN = 1, mxGetData = [0, 0, 1, 1, 1, 1]\<rparr>)"
    unfolding x s by blast
  from c y have "slot (mxGetM sample_swapped) (mxGetData (transform sample_env sample_R sample_swapped)) 0 =
      slot (mxGetM sample_batch) (mxGetData (transform sample_env sample_R sample_batch)) 1"
    by blast
  with a show ?thesis
    unfolding x by blast
qed

text \<open>
  C9. When two outputs are asked for, the second output of a successful call is a
  3-by-3 matrix whose element at the index \<open>i + 3 * j\<close> of its data (column-major order)
  is the element \<open>i\<close>, \<open>j\<close> of the CIRS-to-GCRS matrix; read as a matrix, it is the matrix
  the batch was converted with, so that converting the batch with it gives the first
  output.
\<close>

theorem C9_rotation_matrix_output:
  assumes "mexFunction env nlhs prhs = Inr out"
    and "getDoubleFromMatlab env (prhs ! 1) = Inr TT1"
    and "getDoubleFromMatlab env (prhs ! 2) = Inr TT2"
    and "pole_offsets env prhs TT1 TT2 = Inr (dX, dY, warns)"
    and "nlhs > 1"
  shows "\<exists>m. rotMat out = Some m \<and> mxGetM m = 3 \<and> mxGetN m = 3 \<and>
           length (mxGetData m) = 9 \<and>
           (\<forall>i<3. \<forall>j<3. mxGetData m ! (i + 3 * j) =
              mget (CIRS2GCRS_matrix env TT1 TT2 dX dY) i j) \<and>
           mat3_of_mx m = CIRS2GCRS_matrix env TT1 TT2 dX dY \<and>
           vec out = transform env (mat3_of_mx m) (prhs ! 0)"
proof -
  let ?R = "CIRS2GCRS_matrix env TT1 TT2 dX dY"
  have out: "out = result env nlhs (prhs ! 0) TT1 TT2 (dX, dY, warns)"
    by (rule mexFunction_Inr_result [OF assms(1-4)])
  with assms(5) have r: "rotMat out = Some (rotMat_out ?R)"
    and v: "vec out = transform env ?R (prhs ! 0)"
    by (simp_all add: rotMat_result vec_result)
  have "mxGetM (rotMat_out ?R) = 3" "mxGetN (rotMat_out ?R) = 3"
    "length (mxGetData (rotMat_out ?R)) = 9"
    by (simp_all add: rotMat_out_eq)
  with r v show ?thesis
    by (simp add: nth_rotMat_out mat3_of_rotMat_out)
qed

text \<open>The theorem at a sample call.\<close>

theorem C9_rotation_matrix_output_witness:
  "rotMat sample_out = Some sample_rotMat \<and>
   mxGetData sample_rotMat ! (1 + 3 * 0) = mget (CIRS2GCRS_matrix sample_env 2451545 0 3 4) 1 0 \<and>
   mxGetData sample_rotMat ! (0 + 3 * 2) = mget (CIRS2GCRS_matrix sample_env 2451545 0 3 4) 0 2 \<and>
   mat3_of_mx sample_rotMat = CIRS2GCRS_matrix sample_env 2451545 0 3 4 \<and>
   vec sample_out = transform sample_env (mat3_of_mx sample_rotMat) sample_batch"
proof -
  have n: "(1::int) < 2" by simp
  have x: "sample_prhs ! 0 = sample_batch"
    by (simp add: sample_prhs_def)
  have r: "rotMat sample_out = Some sample_rotMat"
    by (simp add: sample_out_def)
  from C9_rotation_matrix_output [OF sample_call sample_TT1 sample_TT2 sample_offsets n]
  obtain m where m: "rotMat sample_out = Some m"
    "\<forall>i<3. \<forall>j<3. mxGetData m ! (i + 3 * j) = mget (CIRS2GCRS_matrix sample_env 2451545 0 3 4) i j"
    "mat3_of_mx m = CIRS2GCRS_matrix sample_env 2451545 0 3 4"
    "vec sample_out = transform sample_env (mat3_of_mx m) (sample_prhs ! 0)"
    by blast
  from m(1) r have e: "m = sample_rotMat" by simp
  have "(0::nat) < 3" "(1::nat) < 3" "(2::nat) < 3" by simp_all
  with m(2) have "mxGetData m ! (1 + 3 * 0) = mget (CIRS2GCRS_matrix sample_env 2451545 0 3 4) 1 0"
    "mxGetData m ! (0 + 3 * 2) = mget (CIRS2GCRS_matrix sample_env 2451545 0 3 4) 0 2"
    by blast+
  with r m(3,4) show ?thesis
    unfolding e x by blast
qed

text \<open>
  C10. A call whose fourth argument is an empty array gives what the call with the
  first three arguments alone gives: the pole offsets come from the lookup
  (\<open>eop_lookup\<close>) in both, and the error for offsets of a wrong size is not raised. The
  lookup is the chain of the three routines: when \<open>iauTttai\<close> on the TT date gives the
  status 0 and a TAI date, \<open>iauTaiutc\<close> on that TAI date gives a status other than \<open>-1\<close>
  and a UTC date, and \<open>getEOP\<close> on that UTC date answers with a 2-by-1 array, the call
  succeeds and its batch is converted with the matrix built from the two values of
  that array (the same matrix is the second output when it is asked for), with the
  warning of a dubious date when the status of \<open>iauTaiutc\<close> is 1 and none otherwise.
\<close>

theorem C10_empty_offsets_as_omitted:
  assumes "length prhs = 4" and "mxIsEmpty (prhs ! 3)"
  shows "mexFunction env nlhs prhs = mexFunction env nlhs (take 3 prhs) \<and>
         pole_offsets env prhs TT1 TT2 = eop_lookup env TT1 TT2 \<and>
         pole_offsets env (take 3 prhs) TT1 TT2 = eop_lookup env TT1 TT2 \<and>
         mexFunction env nlhs prhs \<noteq> Inl PoleOffsetsWrongDimensionality \<and>
         (\<forall>tai1 tai2 st2 utc1 utc2 xpyp dXdY.
            passes_checks env nlhs prhs TT1 TT2 \<and>
            iauTttai env TT1 TT2 = (0, tai1, tai2) \<and>
            iauTaiutc env tai1 tai2 = (st2, utc1, utc2) \<and> st2 \<noteq> - 1 \<and>
            getEOP env utc1 utc2 = Some (xpyp, dXdY) \<and>
            checkRealDoubleArray env dXdY = None \<and> mxGetM dXdY = 2 \<and> mxGetN dXdY = 1 \<longrightarrow>
            (\<exists>out. mexFunction env nlhs prhs = Inr out \<and>
               vec out = transform env
                 (CIRS2GCRS_matrix env TT1 TT2 (mxGetData dXdY ! 0) (mxGetData dXdY ! 1))
                 (prhs ! 0) \<and>
               rotMat out =
                 (if nlhs > 1
                  then Some (rotMat_out
                    (CIRS2GCRS_matrix env TT1 TT2 (mxGetData dXdY ! 0) (mxGetData dXdY ! 1)))
                  else None) \<and>
               warnings out = (if st2 = 1 then [''Dubious Date entered.''] else [])))"
proof -
  have p: "pole_offsets env prhs T1 T2 = eop_lookup env T1 T2" for T1 T2
    using assms by (simp add: pole_offsets_def arg_def)
  have q: "pole_offsets env (take 3 prhs) T1 T2 = eop_lookup env T1 T2" for T1 T2
    by (simp add: pole_offsets_def min_less_iff_disj)
  have a: "arg (take 3 prhs) 0 = arg prhs 0" "arg (take 3 prhs) 1 = arg prhs 1"
    "arg (take 3 prhs) 2 = arg prhs 2"
    using assms(1) by (simp_all add: arg_def)
  have l: "(length (take 3 prhs) < 3 \<or> length (take 3 prhs) > 4) =
      (length prhs < 3 \<or> length prhs > 4)"
    using assms(1) by simp
  have same: "mexFunction env nlhs prhs = mexFunction env nlhs (take 3 prhs)"
    unfolding mexFunction_def a l p q by (rule refl)
  have shape: "mexFunction env nlhs prhs \<noteq> Inl PoleOffsetsWrongDimensionality"
    using mexFunction_shape_errorD [of env nlhs prhs] eop_lookup_no_shape_error [of env]
    by (auto simp add: p)
  have path: "\<exists>out. mexFunction env nlhs prhs = Inr out \<and>
      vec out = transform env
        (CIRS2GCRS_matrix env TT1 TT2 (mxGetData dXdY ! 0) (mxGetData dXdY ! 1)) (prhs ! 0) \<and>
      rotMat out =
        (if nlhs > 1
         then Some (rotMat_out
           (CIRS2GCRS_matrix env TT1 TT2 (mxGetData dXdY ! 0) (mxGetData dXdY ! 1)))
         else None) \<and>
      warnings out = (if st2 = 1 then [''Dubious Date entered.''] else [])"
    if h: "passes_checks env nlhs prhs TT1 TT2" "iauTttai env TT1 TT2 = (0, tai1, tai2)"
      "iauTaiutc env tai1 tai2 = (st2, utc1, utc2)" "st2 \<noteq> - 1"
      "getEOP env utc1 utc2 = Some (xpyp, dXdY)" "checkRealDoubleArray env dXdY = None"
      "mxGetM dXdY = 2" "mxGetN dXdY = 1"
    for tai1 tai2 st2 utc1 utc2 xpyp dXdY
  proof -
    have "eop_lookup env TT1 TT2 =
        Inr (mxGetData dXdY ! 0, mxGetData dXdY ! 1,
             if st2 = 1 then [''Dubious Date entered.''] else [])"
      unfolding eop_lookup_def by (simp add: h(2-8) del: One_nat_def)
    then have "mexFunction env nlhs prhs =
        Inr (result env nlhs (prhs ! 0) TT1 TT2
          (mxGetData dXdY ! 0, mxGetData dXdY ! 1,
           if st2 = 1 then [''Dubious Date entered.''] else []))"
      by (simp add: mexFunction_after_checks [OF h(1)] p)
    then show ?thesis
      by (simp add: vec_result rotMat_result warnings_result)
  qed
  show ?thesis
  proof (intro conjI allI impI)
    show "mexFunction env nlhs prhs = mexFunction env nlhs (take 3 prhs)" by (rule same)
    show "pole_offsets env prhs TT1 TT2 = eop_lookup env TT1 TT2" by (rule p)
    show "pole_offsets env (take 3 prhs) TT1 TT2 = eop_lookup env TT1 TT2" by (rule q)
    show "mexFunction env nlhs prhs \<noteq> Inl PoleOffsetsWrongDimensionality" by (rule shape)
  next
    fix tai1 tai2 st2 utc1 utc2 xpyp dXdY
    assume h: "passes_checks env nlhs prhs TT1 TT2 \<and>
            iauTttai env TT1 TT2 = (0, tai1, tai2) \<and>
            iauTaiutc env tai1 tai2 = (st2, utc1, utc2) \<and> st2 \<noteq> - 1 \<and>
            getEOP env utc1 utc2 = Some (xpyp, dXdY) \<and>
            checkRealDoubleArray env dXdY = None \<and> mxGetM dXdY = 2 \<and> mxGetN dXdY = 1"
    show "\<exists>out. mexFunction env nlhs prhs = Inr out \<and>
      vec out = transform env
        (CIRS2GCRS_matrix env TT1 TT2 (mxGetData dXdY ! 0) (mxGetData dXdY ! 1)) (prhs ! 0) \<and>
      rotMat out =
        (if nlhs > 1
         then Some (rotMat_out
           (CIRS2GCRS_matrix env TT1 TT2 (mxGetData dXdY ! 0) (mxGetData dXdY ! 1)))
         else None) \<and>
      warnings out = (if st2 = 1 then [''Dubious Date entered.''] else [])"
      using h by (elim conjE) (rule path [of tai1 tai2 st2 utc1 utc2 xpyp dXdY], assumption+)
  qed
qed

text \<open>
  The theorem at two sample calls: in \<open>env_shifted\<close> the two date conversions change
  the date and the answer of \<open>getEOP\<close> is the date it is asked for, so that the offsets
  show which date the lookup was made at.
\<close>

theorem C10_empty_offsets_as_omitted_witness:
  "mexFunction sample_env 2 (sample_prhs @ [column []]) = Inr sample_out \<and>
   pole_offsets sample_env (sample_prhs @ [column []]) 2451545 0 =
     eop_lookup sample_env 2451545 0 \<and>
   (\<exists>out. mexFunction env_shifted 2 (sample_prhs @ [column []]) = Inr out \<and>
      vec out = transform env_shifted
        (CIRS2GCRS_matrix env_shifted 2451545 0 2451550 (- 3)) sample_batch \<and>
      warnings out = [])"
proof -
  let ?prhs = "sample_prhs @ [column []]"
  have l: "length ?prhs = 4"
    and e: "mxIsEmpty (?prhs ! 3)"
    and t: "take 3 ?prhs = sample_prhs"
    and x: "?prhs ! 0 = sample_batch"
    by (simp_all add: sample_prhs_def mxIsEmpty_def column_def)
  note s = C10_empty_offsets_as_omitted [OF l e, of sample_env 2 2451545 0]
  from s sample_call have a: "mexFunction sample_env 2 ?prhs = Inr sample_out"
    unfolding t by simp
  from s have b: "pole_offsets sample_env ?prhs 2451545 0 = eop_lookup sample_env 2451545 0"
    by blast
  have h: "passes_checks env_shifted 2 ?prhs 2451545 0 \<and>
      iauTttai env_shifted 2451545 0 = (0, 2451545, - 1) \<and>
      iauTaiutc env_shifted 2451545 (- 1) = (0, 2451550, - 3) \<and> (0::int) \<noteq> - 1 \<and>
      getEOP env_shifted 2451550 (- 3) = Some (column [0, 0], column [2451550, - 3]) \<and>
      checkRealDoubleArray env_shifted (column [2451550, - 3]) = None \<and>
      mxGetM (column [2451550, - 3 :: real]) = 2 \<and> mxGetN (column [2451550, - 3 :: real]) = 1"
    by (simp add: passes_checks_def env_shifted_def sample_env_def sample_prhs_def
        sample_batch_def scalar_def column_def)
  have d: "mxGetData (column [2451550, - 3 :: real]) ! 0 = 2451550"
    "mxGetData (column [2451550, - 3 :: real]) ! 1 = - 3"
    by (simp_all add: column_def)
  note u = C10_empty_offsets_as_omitted [OF l e, of env_shifted 2 2451545 0, THEN conjunct2, THEN conjunct2,
      THEN conjunct2, THEN conjunct2, rule_format]
  have "\<exists>out. mexFunction env_shifted 2 ?prhs = Inr out \<and>
      vec out = transform env_shifted
        (CIRS2GCRS_matrix env_shifted 2451545 0
           (mxGetData (column [2451550, - 3 :: real]) ! 0)
           (mxGetData (column [2451550, - 3 :: real]) ! 1)) (?prhs ! 0) \<and>
      rotMat out =
        (if (2::int) > 1
         then Some (rotMat_out
           (CIRS2GCRS_matrix env_shifted 2451545 0
              (mxGetData (column [2451550, - 3 :: real]) ! 0)
              (mxGetData (column [2451550, - 3 :: real]) ! 1)))
         else None) \<and>
      warnings out = (if (0::int) = 1 then [''Dubious Date entered.''] else [])"
    by (rule u [OF h])
  then have c: "\<exists>out. mexFunction env_shifted 2 ?prhs = Inr out \<and>
      vec out = transform env_shifted
        (CIRS2GCRS_matrix env_shifted 2451545 0 2451550 (- 3)) sample_batch \<and>
      warnings out = []"
    unfolding d x by auto
  from a b c show ?thesis by blast
qed

end
